theory Spec2Isabelle
  imports Complex_Main
begin

section \<open>Numbers, errors and effects\<close>

text \<open>
  The Python floats of the source are modelled as exact reals: every comparison and
  every arithmetic step is the one the source writes, without rounding. The decimal
  literals of the source (\<open>.2\<close>, \<open>.8\<close>, \<open>0.100\<close>) are written as they are.
  Python truthiness of a number (\<open>if x\<close>, \<open>not x\<close>) is \<open>x \<noteq> 0\<close>.
\<close>

definition FAN_MIN_TIME :: real where
  "FAN_MIN_TIME = 0.100"

definition MAX_FAN_TIME :: real where
  "MAX_FAN_TIME = 5.0"

definition AMBIENT_TEMP :: real where
  "AMBIENT_TEMP = 25"

definition MAX_TEMP_BUFFER :: real where
  "MAX_TEMP_BUFFER = 0.8"

text \<open>
  The hardware commands a fan schedules: \<open>enable_pin.set_digital(print_time, value)\<close>
  and \<open>mcu_fan.set_pwm(print_time, value)\<close>.
\<close>

datatype command = Set_digital real int | Set_pwm real real


fun is_pwm :: "command \<Rightarrow> bool" where
  "is_pwm (Set_digital t b) = False"
| "is_pwm (Set_pwm t d) = True"

text \<open>
  The exceptions the modelled code can raise. \<open>Command_error\<close> is
  \<open>printer.command_error\<close>, tagged with the check that raised it.
\<close>

datatype command_error_kind =
  Temperature_out_of_range
| Min_speed_greater_than_max
| Min_speed_out_of_range
| Max_speed_out_of_range

datatype error =
  ZeroDivisionError | ValueError | AttributeError | Command_error command_error_kind

text \<open>
  The calls the tachometer makes: \<open>Tach_loss_action t\<close> records the call
  \<open>self.tach_loss_action(eventtime)\<close> itself, \<open>Invoke_shutdown\<close> is
  \<open>printer.invoke_shutdown(...)\<close> and \<open>Respond_raw t\<close> is the warning written by
  \<open>gcode.respond_raw(...)\<close> at event time \<open>t\<close>.
\<close>

datatype effect = Tach_loss_action real | Invoke_shutdown | Respond_raw real

section \<open>fan.py: FanTachometer\<close>

datatype tach_action = Action_shutdown | Action_warning | Action_none

record FanTachometer =
  freq_counter :: bool
  ppr :: int
  tach_loss_interval :: real
  warning_repeat_interval :: real
  tach_loss_action :: tach_action
  tach_loss_time :: "real option"
  last_warning_time :: real
  warning_issued :: bool

text \<open>\<open>if self.tach_loss_time\<close>: neither \<open>None\<close> nor the number 0.\<close>

fun truthy :: "real option \<Rightarrow> bool" where
  "truthy None = False"
| "truthy (Some t) = (t \<noteq> 0)"

definition shutdown :: "FanTachometer \<Rightarrow> real \<Rightarrow> FanTachometer \<times> effect list" where
  "shutdown s eventtime = (s, [Invoke_shutdown])"

definition warning :: "FanTachometer \<Rightarrow> real \<Rightarrow> FanTachometer \<times> effect list" where
  "warning s eventtime =
     (if warning_repeat_interval s = 0 \<and> warning_issued s then (s, [])
      else
        let interval = eventtime - last_warning_time s in
        if last_warning_time s = 0 \<or> interval \<ge> warning_repeat_interval s
        then (s\<lparr>last_warning_time := eventtime\<rparr>, [Respond_raw eventtime])
        else (s, []))"

fun call_action :: "tach_action \<Rightarrow> FanTachometer \<Rightarrow> real \<Rightarrow> FanTachometer \<times> effect list" where
  "call_action Action_shutdown s eventtime = shutdown s eventtime"
| "call_action Action_warning s eventtime = warning s eventtime"
| "call_action Action_none s eventtime = (s, [])"

text \<open>
  \<open>FanTachometer.get_status(eventtime)\<close>. The reading of the frequency counter and
  \<open>self.fan.last_fan_value\<close> are inputs. The result is the new state, the reported
  \<open>rpm\<close> and the calls made; the division by \<open>self.ppr\<close> raises when \<open>ppr\<close> is 0.
\<close>

definition FanTachometer_get_status ::
  "FanTachometer \<Rightarrow> real \<Rightarrow> real \<Rightarrow> real \<Rightarrow> error + (FanTachometer \<times> real option \<times> effect list)" where
  "FanTachometer_get_status s fan_value frequency eventtime =
     (if freq_counter s then
        if ppr s = 0 then Inl ZeroDivisionError
        else
          let rpm = frequency * 30 / of_int (ppr s);
              s1 = (if rpm > 0 \<and> truthy (tach_loss_time s)
                    then s\<lparr>tach_loss_time := None\<rparr> else s)
          in
          if rpm = 0 \<and> fan_value > 0 then
            (case tach_loss_time s1 of
               None \<Rightarrow> Inr (s1\<lparr>tach_loss_time := Some eventtime\<rparr>, Some rpm, [])
             | Some t0 \<Rightarrow>
                 if t0 = 0 then Inr (s1\<lparr>tach_loss_time := Some eventtime\<rparr>, Some rpm, [])
                 else if eventtime - t0 > tach_loss_interval s1 then
                   (let (s2, es) = call_action (tach_loss_action s1) s1 eventtime
                    in Inr (s2, Some rpm, Tach_loss_action eventtime # es))
                 else Inr (s1, Some rpm, []))
          else Inr (s1, Some rpm, [])
      else Inr (s, None, []))"

text \<open>
  The state \<open>FanTachometer.__init__\<close> leaves when a tachometer pin is configured.
\<close>

definition FanTachometer_init :: "int \<Rightarrow> real \<Rightarrow> real \<Rightarrow> tach_action \<Rightarrow> FanTachometer" where
  "FanTachometer_init p loss_interval repeat_interval action =
     \<lparr>freq_counter = True, ppr = p, tach_loss_interval = loss_interval,
      warning_repeat_interval = repeat_interval, tach_loss_action = action,
      tach_loss_time = None, last_warning_time = 0, warning_issued = False\<rparr>"

text \<open>
  A run of status polls: each sample is (last requested duty of the fan, frequency
  reading, event time). The first exception ends the run.
\<close>

fun run_samples ::
  "FanTachometer \<Rightarrow> (real \<times> real \<times> real) list \<Rightarrow> error + (FanTachometer \<times> effect list)" where
  "run_samples s [] = Inr (s, [])"
| "run_samples s ((fan_value, frequency, eventtime) # rest) =
     (case FanTachometer_get_status s fan_value frequency eventtime of
        Inl e \<Rightarrow> Inl e
      | Inr (s1, rpm, es) \<Rightarrow>
          (case run_samples s1 rest of
             Inl e \<Rightarrow> Inl e
           | Inr (s2, es2) \<Rightarrow> Inr (s2, es @ es2)))"

section \<open>fan.py: Fan\<close>

record Fan =
  last_fan_value :: real
  last_fan_time :: real
  max_power :: real
  kick_start_time :: real
  off_below :: real
  pwm_fan :: bool
  enable_pin :: bool
  tachometer :: FanTachometer

text \<open>Lines 86 to 98 of \<open>Fan.set_speed\<close>: the duty sent to the hardware.\<close>

definition fan_speed_of :: "Fan \<Rightarrow> real \<Rightarrow> real" where
  "fan_speed_of f v =
     (let fan_speed = (if \<not> pwm_fan f
                       then (let fs = 0.2 + 0.8 * v in if fs \<le> 0.2 then 0 else fs)
                       else v);
          fan_speed = (if v < off_below f then 0 else fan_speed)
      in max 0 (min (max_power f) (fan_speed * max_power f)))"

text \<open>
  \<open>Fan.set_speed(print_time, value)\<close>: the new state and the commands scheduled, in the
  order of the calls.
\<close>

definition Fan_set_speed :: "Fan \<Rightarrow> real \<Rightarrow> real \<Rightarrow> Fan \<times> command list" where
  "Fan_set_speed f print_time v =
     (let fan_speed = fan_speed_of f v in
      if v = last_fan_value f then (f, [])
      else
        let print_time = max (last_fan_time f + FAN_MIN_TIME) print_time;
            enable = (if enable_pin f then
                        (if v > 0 \<and> last_fan_value f = 0 then [Set_digital print_time 1]
                         else if v = 0 \<and> last_fan_value f > 0 then [Set_digital print_time 0]
                         else [])
                      else []);
            kick = (fan_speed \<noteq> 0 \<and> fan_speed < max_power f \<and> kick_start_time f \<noteq> 0
                    \<and> (last_fan_value f = 0 \<or> fan_speed - last_fan_value f > 0.5));
            pulse = (if kick then [Set_pwm print_time (max_power f)] else []);
            print_time = (if kick then print_time + kick_start_time f else print_time)
        in (f\<lparr>last_fan_time := print_time, last_fan_value := v\<rparr>,
            enable @ pulse @ [Set_pwm print_time fan_speed]))"



section \<open>temperature_fan.py: TemperatureFan\<close>

record TemperatureFan =
  fan :: Fan
  min_temp :: real
  max_temp :: real
  min_temp_cutoff :: real
  target_temp_conf :: real
  target_temp :: real
  last_temp :: real
  last_temp_time :: real
  next_speed_time :: real
  last_speed_value :: real
  speed_delay :: real
  max_speed_conf :: real
  max_speed :: real
  min_speed_conf :: real
  min_speed :: real

text \<open>
  In this file a function returns the state it leaves, the commands it scheduled and
  the exception it raised, if any: some of them raise after they have changed the state.
\<close>

text \<open>
  The constructors of the controllers receive the temperature fan while its own
  \<open>__init__\<close> is still running. These are the attributes they read; \<open>None\<close> is an
  attribute that has not been assigned yet, and reading it raises \<open>AttributeError\<close>.
\<close>

record TemperatureFan_partial =
  attr_min_temp :: real
  attr_max_temp :: real
  attr_min_temp_cutoff :: real
  attr_max_speed :: "real option"
  attr_min_speed :: "real option"

definition TemperatureFan_set_speed ::
  "TemperatureFan \<Rightarrow> real \<Rightarrow> real \<Rightarrow> TemperatureFan \<times> command list" where
  "TemperatureFan_set_speed tf read_time v =
     (let v = (if v \<le> 0 then 0 else if v < min_speed tf then min_speed tf else v);
          v = (if target_temp tf \<le> 0 then 0 else v)
      in
      if (read_time < next_speed_time tf \<or> last_speed_value tf = 0)
         \<and> \<bar>v - last_speed_value tf\<bar> < 0.05
      then (tf, [])
      else
        let speed_time = read_time + speed_delay tf;
            (f1, cmds) = Fan_set_speed (fan tf) speed_time v
        in (tf\<lparr>next_speed_time := speed_time + 0.75 * MAX_FAN_TIME,
                last_speed_value := v, fan := f1\<rparr>, cmds))"



text \<open>\<open>math.trunc\<close>: towards zero.\<close>

definition py_trunc :: "real \<Rightarrow> int" where
  "py_trunc x = (if x \<ge> 0 then \<lfloor>x\<rfloor> else \<lceil>x\<rceil>)"

record status =
  speed :: real
  rpm :: "real option"
  temperature :: real
  target :: real


definition set_temp :: "TemperatureFan \<Rightarrow> real \<Rightarrow> TemperatureFan \<times> error option" where
  "set_temp tf degrees =
     (if degrees \<noteq> 0 \<and> (degrees < min_temp tf \<or> degrees > max_temp tf)
      then (tf, Some (Command_error Temperature_out_of_range))
      else (tf\<lparr>target_temp := degrees\<rparr>, None))"

definition set_min_speed :: "TemperatureFan \<Rightarrow> real \<Rightarrow> TemperatureFan \<times> error option" where
  "set_min_speed tf sp =
     (if sp \<noteq> 0 \<and> (sp < 0 \<or> sp > 1)
      then (tf, Some (Command_error Min_speed_out_of_range))
      else (tf\<lparr>min_speed := sp\<rparr>, None))"

definition set_max_speed :: "TemperatureFan \<Rightarrow> real \<Rightarrow> TemperatureFan \<times> error option" where
  "set_max_speed tf sp =
     (if sp \<noteq> 0 \<and> (sp < 0 \<or> sp > 1)
      then (tf, Some (Command_error Max_speed_out_of_range))
      else (tf\<lparr>max_speed := sp\<rparr>, None))"

text \<open>
  The parameters of a \<open>SET_TEMPERATURE_FAN_TARGET\<close> command, each present or absent
  (\<open>gcmd.get_float\<close> with a default).
\<close>

record gcmd =
  TARGET :: "real option"
  MIN_SPEED :: "real option"
  MAX_SPEED :: "real option"

definition get_float :: "real option \<Rightarrow> real \<Rightarrow> real" where
  "get_float param dflt = (case param of None \<Rightarrow> dflt | Some x \<Rightarrow> x)"

definition cmd_SET_TEMPERATURE_FAN_TARGET ::
  "TemperatureFan \<Rightarrow> gcmd \<Rightarrow> TemperatureFan \<times> error option" where
  "cmd_SET_TEMPERATURE_FAN_TARGET tf g =
     (let temp = get_float (TARGET g) (target_temp_conf tf) in
      case set_temp tf temp of
        (tf1, Some e) \<Rightarrow> (tf1, Some e)
      | (tf1, None) \<Rightarrow>
          let mn = get_float (MIN_SPEED g) (min_speed tf1);
              mx = get_float (MAX_SPEED g) (max_speed tf1)
          in
          if mn > mx then (tf1, Some (Command_error Min_speed_greater_than_max))
          else
            (case set_min_speed tf1 mn of
               (tf2, Some e) \<Rightarrow> (tf2, Some e)
             | (tf2, None) \<Rightarrow> set_max_speed tf2 mx))"

section \<open>temperature_fan.py: ControlBangBang\<close>

record ControlBangBang =
  max_delta :: real
  heating :: bool

definition ControlBangBang_init :: "real \<Rightarrow> ControlBangBang" where
  "ControlBangBang_init delta = \<lparr>max_delta = delta, heating = False\<rparr>"

definition ControlBangBang_temperature_callback ::
  "ControlBangBang \<Rightarrow> TemperatureFan \<Rightarrow> real \<Rightarrow> real
     \<Rightarrow> ControlBangBang \<times> TemperatureFan \<times> command list \<times> error option" where
  "ControlBangBang_temperature_callback c tf read_time temp =
     (if temp < min_temp_cutoff tf then
        (let (tf1, cmds) = TemperatureFan_set_speed tf read_time 0 in (c, tf1, cmds, None))
      else
        let c1 = (if heating c \<and> temp \<ge> target_temp tf + max_delta c
                  then c\<lparr>heating := False\<rparr>
                  else if \<not> heating c \<and> temp \<le> target_temp tf - max_delta c
                  then c\<lparr>heating := True\<rparr>
                  else c);
            (tf1, cmds) = (if heating c1 then TemperatureFan_set_speed tf read_time 0
                           else TemperatureFan_set_speed tf read_time (max_speed tf))
        in (c1, tf1, cmds, None))"

section \<open>temperature_fan.py: ControlPID\<close>

record ControlPID =
  Kp :: real
  Ki :: real
  Kd :: real
  min_deriv_time :: real
  temp_integ_max :: real
  prev_temp :: real
  prev_temp_time :: real
  prev_temp_deriv :: real
  prev_temp_integ :: real

definition PID_PARAM_BASE :: real where
  "PID_PARAM_BASE = 255"

text \<open>
  \<open>ControlPID.__init__\<close> with the options \<open>pid_Kp\<close>, \<open>pid_Ki\<close>, \<open>pid_Kd\<close> and
  \<open>pid_deriv_time\<close>. With a nonzero \<open>Ki\<close> it calls \<open>get_max_speed()\<close>, which reads
  \<open>max_speed\<close>.
\<close>

definition ControlPID_init ::
  "TemperatureFan_partial \<Rightarrow> real \<Rightarrow> real \<Rightarrow> real \<Rightarrow> real \<Rightarrow> error + ControlPID" where
  "ControlPID_init obj pid_Kp pid_Ki pid_Kd pid_deriv_time =
     (let c = \<lparr>Kp = pid_Kp / PID_PARAM_BASE, Ki = pid_Ki / PID_PARAM_BASE,
               Kd = pid_Kd / PID_PARAM_BASE, min_deriv_time = pid_deriv_time,
               temp_integ_max = 0, prev_temp = AMBIENT_TEMP, prev_temp_time = 0,
               prev_temp_deriv = 0, prev_temp_integ = 0\<rparr>
      in
      if Ki c \<noteq> 0 then
        (case attr_max_speed obj of
           None \<Rightarrow> Inl AttributeError
         | Some ms \<Rightarrow> Inr (c\<lparr>temp_integ_max := ms / Ki c\<rparr>))
      else Inr c)"

text \<open>The terms of one PID sample, lines 201 to 215, named as in the source.\<close>

definition temp_deriv_of :: "ControlPID \<Rightarrow> real \<Rightarrow> real \<Rightarrow> error + real" where
  "temp_deriv_of pid read_time temp =
     (let time_diff = read_time - prev_temp_time pid;
          temp_diff = temp - prev_temp pid
      in
      if time_diff \<ge> min_deriv_time pid then
        (if time_diff = 0 then Inl ZeroDivisionError else Inr (temp_diff / time_diff))
      else
        (if min_deriv_time pid = 0 then Inl ZeroDivisionError
         else Inr ((prev_temp_deriv pid * (min_deriv_time pid - time_diff) + temp_diff)
                   / min_deriv_time pid)))"

definition temp_integ_of :: "ControlPID \<Rightarrow> TemperatureFan \<Rightarrow> real \<Rightarrow> real \<Rightarrow> real" where
  "temp_integ_of pid tf read_time temp =
     (let time_diff = read_time - prev_temp_time pid;
          temp_err = target_temp tf - temp;
          temp_integ = prev_temp_integ pid + temp_err * time_diff
      in max 0 (min (temp_integ_max pid) temp_integ))"

definition co_of :: "ControlPID \<Rightarrow> TemperatureFan \<Rightarrow> real \<Rightarrow> real \<Rightarrow> real \<Rightarrow> real" where
  "co_of pid tf read_time temp temp_deriv =
     (let temp_err = target_temp tf - temp
      in Kp pid * temp_err + Ki pid * temp_integ_of pid tf read_time temp - Kd pid * temp_deriv)"

definition bounded_co_of :: "TemperatureFan \<Rightarrow> real \<Rightarrow> real" where
  "bounded_co_of tf co = max 0 (min (max_speed tf) co)"

definition ControlPID_temperature_callback ::
  "ControlPID \<Rightarrow> TemperatureFan \<Rightarrow> real \<Rightarrow> real
     \<Rightarrow> ControlPID \<times> TemperatureFan \<times> command list \<times> error option" where
  "ControlPID_temperature_callback pid tf read_time temp =
     (if temp < min_temp_cutoff tf then
        (let (tf1, cmds) = TemperatureFan_set_speed tf read_time 0 in (pid, tf1, cmds, None))
      else
        case temp_deriv_of pid read_time temp of
          Inl e \<Rightarrow> (pid, tf, [], Some e)
        | Inr temp_deriv \<Rightarrow>
            let temp_integ = temp_integ_of pid tf read_time temp;
                co = co_of pid tf read_time temp temp_deriv;
                bounded_co = bounded_co_of tf co;
                (tf1, cmds) = TemperatureFan_set_speed tf read_time
                                (max (min_speed tf) (max_speed tf - bounded_co));
                pid1 = pid\<lparr>prev_temp := temp, prev_temp_time := read_time,
                           prev_temp_deriv := temp_deriv\<rparr>;
                pid2 = (if co = bounded_co then pid1\<lparr>prev_temp_integ := temp_integ\<rparr>
                        else pid1)
            in (pid2, tf1, cmds, None))"

section \<open>temperature_fan.py: ControlSlope\<close>

datatype slope_algo = Linear | Log | Exponential

text \<open>
  The controller's own copies carry the prefix \<open>slope_\<close>: \<open>self.min_temp\<close> and
  \<open>self.max_temp\<close> of the controller are not those of the temperature fan.
\<close>

record ControlSlope =
  hysteresis_margin :: real
  slope_min_speed :: real
  slope_min_temp_cutoff :: real
  slope_min_temp :: real
  algo :: slope_algo
  slope_max_temp :: real

text \<open>
  \<open>ControlSlope.__init__\<close>. Line 235 reads \<open>temperature_fan.min_speed\<close> before anything
  else of the temperature fan.
\<close>

definition ControlSlope_init :: "TemperatureFan_partial \<Rightarrow> slope_algo \<Rightarrow> error + ControlSlope" where
  "ControlSlope_init obj a =
     (case attr_min_speed obj of
        None \<Rightarrow> Inl AttributeError
      | Some ms \<Rightarrow>
          Inr \<lparr>hysteresis_margin = 0.5,
               slope_min_speed = ms,
               slope_min_temp_cutoff = attr_min_temp_cutoff obj,
               slope_min_temp =
                 (if attr_min_temp obj < AMBIENT_TEMP
                     \<or> attr_min_temp obj < attr_min_temp_cutoff obj
                  then (if attr_min_temp_cutoff obj > AMBIENT_TEMP
                        then attr_min_temp_cutoff obj
                        else AMBIENT_TEMP)
                  else attr_min_temp obj),
               algo = a,
               slope_max_temp = attr_max_temp obj * MAX_TEMP_BUFFER\<rparr>)"

definition floor_at_min_speed ::
  "ControlSlope \<Rightarrow> TemperatureFan \<Rightarrow> real \<Rightarrow> real \<Rightarrow> TemperatureFan \<times> command list \<times> error option" where
  "floor_at_min_speed c tf read_time sp =
     (let (tf1, cmds) = (if sp > slope_min_speed c
                         then TemperatureFan_set_speed tf read_time sp
                         else TemperatureFan_set_speed tf read_time (slope_min_speed c))
      in (tf1, cmds, None))"

definition ControlSlope_linear ::
  "ControlSlope \<Rightarrow> TemperatureFan \<Rightarrow> real \<Rightarrow> real \<Rightarrow> TemperatureFan \<times> command list \<times> error option" where
  "ControlSlope_linear c tf read_time temp =
     (if slope_max_temp c - slope_min_temp c = 0 then (tf, [], Some ZeroDivisionError)
      else
        let proportion = (temp - slope_min_temp c) / (slope_max_temp c - slope_min_temp c);
            sp = (max_speed tf - min_speed tf) * proportion
        in floor_at_min_speed c tf read_time sp)"

definition ControlSlope_log ::
  "ControlSlope \<Rightarrow> TemperatureFan \<Rightarrow> real \<Rightarrow> real \<Rightarrow> TemperatureFan \<times> command list \<times> error option" where
  "ControlSlope_log c tf read_time temp =
     (let offset_min_temp = 1;
          offset_max_temp = slope_max_temp c - slope_min_temp c + offset_min_temp;
          offset_temp = temp - slope_min_temp c + offset_min_temp
      in
      if offset_temp \<le> 0 \<or> offset_max_temp \<le> 0 then (tf, [], Some ValueError)
      else if ln offset_max_temp = 0 then (tf, [], Some ZeroDivisionError)
      else
        let normalized_temp = ln offset_temp / ln offset_max_temp;
            sp = (max_speed tf - min_speed tf) * normalized_temp
        in floor_at_min_speed c tf read_time sp)"

definition ControlSlope_exponential ::
  "ControlSlope \<Rightarrow> TemperatureFan \<Rightarrow> real \<Rightarrow> real \<Rightarrow> TemperatureFan \<times> command list \<times> error option" where
  "ControlSlope_exponential c tf read_time temp =
     (if slope_max_temp c - slope_min_temp c = 0 then (tf, [], Some ZeroDivisionError)
      else
        let normalized_temp = (temp - slope_min_temp c) / (slope_max_temp c - slope_min_temp c);
            sp = (max_speed tf - min_speed tf) * normalized_temp ^ 2
        in floor_at_min_speed c tf read_time sp)"

fun call_algo ::
  "slope_algo \<Rightarrow> ControlSlope \<Rightarrow> TemperatureFan \<Rightarrow> real \<Rightarrow> real
     \<Rightarrow> TemperatureFan \<times> command list \<times> error option" where
  "call_algo Linear c tf read_time temp = ControlSlope_linear c tf read_time temp"
| "call_algo Log c tf read_time temp = ControlSlope_log c tf read_time temp"
| "call_algo Exponential c tf read_time temp = ControlSlope_exponential c tf read_time temp"

definition ControlSlope_temperature_callback ::
  "ControlSlope \<Rightarrow> TemperatureFan \<Rightarrow> real \<Rightarrow> real
     \<Rightarrow> TemperatureFan \<times> command list \<times> error option" where
  "ControlSlope_temperature_callback c tf read_time temp =
     (if temp < min_temp_cutoff tf - hysteresis_margin c then
        (let (tf1, cmds) = TemperatureFan_set_speed tf read_time 0 in (tf1, cmds, None))
      else if temp > min_temp_cutoff tf + hysteresis_margin c then
        (let temp = max (slope_min_temp c) (min temp (slope_max_temp c));
             tf1 = tf\<lparr>target_temp := of_int (py_trunc (temp * 10)) / 10\<rparr>
         in call_algo (algo c) c tf1 read_time temp)
      else (tf, [], None))"

section \<open>temperature_fan.py: the sensor callback\<close>

datatype control = Watermark ControlBangBang | Pid ControlPID | Slope ControlSlope

fun TemperatureFan_temperature_callback ::
  "control \<Rightarrow> TemperatureFan \<Rightarrow> real \<Rightarrow> real
     \<Rightarrow> control \<times> TemperatureFan \<times> command list \<times> error option" where
  "TemperatureFan_temperature_callback (Watermark c) tf read_time temp =
     (let (c1, tf1, cmds, e) =
            ControlBangBang_temperature_callback c (tf\<lparr>last_temp := temp\<rparr>) read_time temp
      in (Watermark c1, tf1, cmds, e))"
| "TemperatureFan_temperature_callback (Pid c) tf read_time temp =
     (let (c1, tf1, cmds, e) =
            ControlPID_temperature_callback c (tf\<lparr>last_temp := temp\<rparr>) read_time temp
      in (Pid c1, tf1, cmds, e))"
| "TemperatureFan_temperature_callback (Slope c) tf read_time temp =
     (let (tf1, cmds, e) =
            ControlSlope_temperature_callback c (tf\<lparr>last_temp := temp\<rparr>) read_time temp
      in (Slope c, tf1, cmds, e))"

section \<open>temperature_fan.py: TemperatureFan.__init__\<close>

text \<open>
  The options of a \<open>[temperature_fan]\<close> section as the configuration parser delivers
  them (its range checks and the start-up warning about \<open>min_temp\<close> are not modelled),
  the fan built by \<open>fan.Fan(config, default_shutdown_speed=1.)\<close> and the report time of
  the sensor.
\<close>

datatype control_option =
  Option_watermark real
| Option_pid real real real real
| Option_slope slope_algo

record temperature_fan_options =
  opt_fan :: Fan
  opt_min_temp :: real
  opt_max_temp :: real
  opt_min_temp_cutoff :: real
  opt_target_temp :: "real option"
  opt_control :: control_option
  opt_speed_delay :: real
  opt_max_speed :: real
  opt_min_speed :: real

text \<open>
  The temperature fan as the controller's constructor finds it at line 62: the
  temperatures are assigned (lines 30 to 43), the speeds are not (lines 66 to 71).
\<close>

definition at_line_62 :: "temperature_fan_options \<Rightarrow> TemperatureFan_partial" where
  "at_line_62 opts =
     \<lparr>attr_min_temp = opt_min_temp opts, attr_max_temp = opt_max_temp opts,
      attr_min_temp_cutoff = opt_min_temp_cutoff opts,
      attr_max_speed = None, attr_min_speed = None\<rparr>"

fun construct_control :: "control_option \<Rightarrow> TemperatureFan_partial \<Rightarrow> error + control" where
  "construct_control (Option_watermark delta) obj = Inr (Watermark (ControlBangBang_init delta))"
| "construct_control (Option_pid kp ki kd dt) obj =
     (case ControlPID_init obj kp ki kd dt of Inl e \<Rightarrow> Inl e | Inr c \<Rightarrow> Inr (Pid c))"
| "construct_control (Option_slope a) obj =
     (case ControlSlope_init obj a of Inl e \<Rightarrow> Inl e | Inr c \<Rightarrow> Inr (Slope c))"

definition TemperatureFan_init ::
  "temperature_fan_options \<Rightarrow> error + (TemperatureFan \<times> control)" where
  "TemperatureFan_init opts =
     (let tt = get_float (opt_target_temp opts)
                 (if opt_max_temp opts > 40 then 40 else opt_max_temp opts)
      in
      case construct_control (opt_control opts) (at_line_62 opts) of
        Inl e \<Rightarrow> Inl e
      | Inr ctl \<Rightarrow>
          Inr (\<lparr>fan = opt_fan opts, min_temp = opt_min_temp opts,
                max_temp = opt_max_temp opts, min_temp_cutoff = opt_min_temp_cutoff opts,
                target_temp_conf = tt, target_temp = tt, last_temp = 0, last_temp_time = 0,
                next_speed_time = 0, last_speed_value = 0,
                speed_delay = opt_speed_delay opts,
                max_speed_conf = opt_max_speed opts, max_speed = opt_max_speed opts,
                min_speed_conf = opt_min_speed opts, min_speed = opt_min_speed opts\<rparr>,
               ctl))"



section \<open>Example configurations and stream predicates\<close>

text \<open>
  A tachometer and two fans as \<open>__init__\<close> leaves them with the default options:
  without \<open>enable_pin\<close> (three wires) and with it (four wires).
\<close>

definition default_tachometer :: FanTachometer where
  "default_tachometer = FanTachometer_init 2 3 3 Action_shutdown"

definition three_wire_fan :: Fan where
  "three_wire_fan =
     \<lparr>last_fan_value = 0, last_fan_time = 0, max_power = 1, kick_start_time = 0.1,
      off_below = 0, pwm_fan = False, enable_pin = False, tachometer = default_tachometer\<rparr>"

definition four_wire_fan :: Fan where
  "four_wire_fan =
     \<lparr>last_fan_value = 0, last_fan_time = 0, max_power = 1, kick_start_time = 0.1,
      off_below = 0, pwm_fan = True, enable_pin = True, tachometer = default_tachometer\<rparr>"






text \<open>
  A tachometer with the warning action and \<open>tach_warning_repeat_interval = 0\<close>, and the
  test for the calls of the loss action in a trace.
\<close>

definition warn_once_tachometer :: FanTachometer where
  "warn_once_tachometer = FanTachometer_init 2 3 0 Action_warning"

fun is_tach_loss_action :: "effect \<Rightarrow> bool" where
  "is_tach_loss_action (Tach_loss_action t) = True"
| "is_tach_loss_action e = False"


text \<open>
  A temperature fan on the three-wire fan (temperatures 0 to 100, cutoff 50, target 40,
  speeds 0.3 to 1) and a PID controller for it.
\<close>

definition example_temperature_fan :: TemperatureFan where
  "example_temperature_fan =
     \<lparr>fan = three_wire_fan, min_temp = 0, max_temp = 100, min_temp_cutoff = 50,
      target_temp_conf = 40, target_temp = 40, last_temp = 0, last_temp_time = 0,
      next_speed_time = 0, last_speed_value = 0, speed_delay = 0.3,
      max_speed_conf = 1, max_speed = 1, min_speed_conf = 0.3, min_speed = 0.3\<rparr>"

definition example_pid :: ControlPID where
  "example_pid =
     \<lparr>Kp = 0.1, Ki = 0.1, Kd = 0, min_deriv_time = 2, temp_integ_max = 10,
      prev_temp = AMBIENT_TEMP, prev_temp_time = 0, prev_temp_deriv = 0,
      prev_temp_integ = 0.5\<rparr>"



section \<open>Fan.set_speed\<close>




text \<open>
  Claim C3 as stated fails: on the default three-wire fan, two calls with duty 0.5
  issue two hardware commands in total (the kick-start pulse and the final duty), not
  exactly one.
\<close>

theorem set_speed_twice_counterexample:
  "snd (Fan_set_speed three_wire_fan 0 0.5) = [Set_pwm 0.1 1, Set_pwm 0.2 0.6]
   \<and> snd (Fan_set_speed (fst (Fan_set_speed three_wire_fan 0 0.5)) 0 0.5) = []
   \<and> length (snd (Fan_set_speed three_wire_fan 0 0.5)
             @ snd (Fan_set_speed (fst (Fan_set_speed three_wire_fan 0 0.5)) 0 0.5)) \<noteq> 1"
  by (simp add: three_wire_fan_def Fan_set_speed_def fan_speed_of_def FAN_MIN_TIME_def Let_def)

text \<open>
  Claim C3, amended. A second \<open>set_speed\<close> call with the same duty, at any time, is a
  no-op: it emits nothing and leaves the whole state (so \<open>last_fan_value\<close> and
  \<open>last_fan_time\<close>) unchanged. The two calls together emit what the first one emits:
  nothing when the duty already was the last one, otherwise one to three commands, of
  which at most two are PWM commands.
\<close>

theorem set_speed_second_call_noop:
  "Fan_set_speed (fst (Fan_set_speed f t v)) t2 v = (fst (Fan_set_speed f t v), [])
   \<and> (v = last_fan_value f \<longrightarrow> snd (Fan_set_speed f t v) = [])
   \<and> (v \<noteq> last_fan_value f \<longrightarrow>
        1 \<le> length (snd (Fan_set_speed f t v)) \<and> length (snd (Fan_set_speed f t v)) \<le> 3
        \<and> length (filter is_pwm (snd (Fan_set_speed f t v))) \<le> 2)"
  by (auto simp: Fan_set_speed_def Let_def)

text \<open>
  Claim C3, amended, on the four-wire fan at duty 0.25: the first call emits three
  commands, the second none.
\<close>

theorem set_speed_second_call_noop_witness:
  "Fan_set_speed (fst (Fan_set_speed four_wire_fan 0 0.25)) 7 0.25
     = (fst (Fan_set_speed four_wire_fan 0 0.25), [])
   \<and> length (snd (Fan_set_speed four_wire_fan 0 0.25)) = 3"
  using set_speed_second_call_noop [of four_wire_fan 0 "0.25" 7]
  by (simp add: four_wire_fan_def Fan_set_speed_def fan_speed_of_def Let_def)

















section \<open>FanTachometer\<close>

lemma call_action_frame:
  "call_action a s t = (s', es) \<Longrightarrow>
     tach_loss_time s' = tach_loss_time s \<and> freq_counter s' = freq_counter s
     \<and> ppr s' = ppr s \<and> tach_loss_interval s' = tach_loss_interval s
     \<and> tach_loss_action s' = tach_loss_action s
     \<and> warning_issued s' = warning_issued s
     \<and> filter is_tach_loss_action es = []"
  by (cases a) (auto simp: shutdown_def warning_def Let_def split: if_splits)

lemma get_status_stalled:
  assumes "freq_counter s" and "ppr s \<noteq> 0" and "tach_loss_time s = Some t0" and "t0 \<noteq> 0"
    and "d > 0" and "fr = 0"
  shows "\<exists>s' r es. FanTachometer_get_status s d fr t = Inr (s', r, es)
           \<and> tach_loss_time s' = Some t0 \<and> freq_counter s' \<and> ppr s' = ppr s
           \<and> tach_loss_interval s' = tach_loss_interval s
           \<and> filter is_tach_loss_action es
               = (if t - t0 > tach_loss_interval s then [Tach_loss_action t] else [])"
proof (cases "t - t0 > tach_loss_interval s")
  case True
  obtain s2 es2 where ca: "call_action (tach_loss_action s) s t = (s2, es2)"
    by (cases "call_action (tach_loss_action s) s t")
  have "FanTachometer_get_status s d fr t = Inr (s2, Some 0, Tach_loss_action t # es2)"
    using assms True ca by (simp add: FanTachometer_get_status_def)
  then show ?thesis
    using call_action_frame [OF ca] assms True by simp
next
  case False
  then have "FanTachometer_get_status s d fr t = Inr (s, Some 0, [])"
    using assms by (simp add: FanTachometer_get_status_def)
  then show ?thesis using assms False by simp
qed

lemma run_samples_stalled:
  assumes "freq_counter s" and "ppr s \<noteq> 0" and "tach_loss_time s = Some t0" and "t0 \<noteq> 0"
    and "\<forall>x \<in> set samples. fst x > 0 \<and> fst (snd x) = 0"
  shows "\<exists>s' es. run_samples s samples = Inr (s', es) \<and> tach_loss_time s' = Some t0
           \<and> filter is_tach_loss_action es
               = map Tach_loss_action
                   (filter (\<lambda>t. t - t0 > tach_loss_interval s) (map (\<lambda>x. snd (snd x)) samples))"
  using assms
proof (induction samples arbitrary: s)
  case Nil
  then show ?case by simp
next
  case (Cons x samples)
  obtain d fr t where x: "x = (d, fr, t)" by (cases x)
  from Cons.prems(5) have dfr: "d > 0" "fr = 0" by (simp_all add: x)
  from get_status_stalled [OF Cons.prems(1-4) dfr, of t]
  obtain s1 r es1 where g: "FanTachometer_get_status s d fr t = Inr (s1, r, es1)"
    and s1: "tach_loss_time s1 = Some t0" "freq_counter s1" "ppr s1 = ppr s"
      "tach_loss_interval s1 = tach_loss_interval s"
    and f1: "filter is_tach_loss_action es1
               = (if t - t0 > tach_loss_interval s then [Tach_loss_action t] else [])"
    by blast
  have p1: "ppr s1 \<noteq> 0" using s1 Cons.prems(2) by simp
  have rest: "\<forall>x \<in> set samples. fst x > 0 \<and> fst (snd x) = 0" using Cons.prems(5) by simp
  from Cons.IH [OF s1(2) p1 s1(1) Cons.prems(4) rest]
  obtain s2 es2 where r: "run_samples s1 samples = Inr (s2, es2)"
    and s2: "tach_loss_time s2 = Some t0"
    and f2: "filter is_tach_loss_action es2
               = map Tach_loss_action
                   (filter (\<lambda>t. t - t0 > tach_loss_interval s1) (map (\<lambda>x. snd (snd x)) samples))"
    by blast
  have "run_samples s (x # samples) = Inr (s2, es1 @ es2)"
    using g r by (simp add: x)
  then show ?case using s2 f1 f2 s1(4) by (simp add: x)
qed

text \<open>
  Claim C5 as stated fails. With \<open>tach_loss_interval = 3\<close> and a stall first seen at
  time 1, the sample at time 4 (where the elapsed time reaches the interval) invokes
  nothing, and the samples at times 5 and 6 each invoke the loss action: two invocations
  in one stall.
\<close>

theorem stall_fault_counterexample:
  "run_samples default_tachometer [(0.5, 0, 1), (0.5, 0, 4), (0.5, 0, 5), (0.5, 0, 6)]
     = Inr (default_tachometer\<lparr>tach_loss_time := Some 1\<rparr>,
            [Tach_loss_action 5, Invoke_shutdown, Tach_loss_action 6, Invoke_shutdown])
   \<and> tach_loss_interval default_tachometer = 3"
  by (simp add: default_tachometer_def FanTachometer_init_def FanTachometer_get_status_def
      shutdown_def)

text \<open>
  Claim C5, amended. Take a tachometer with a frequency counter and a run of samples
  that all read frequency 0 while the last requested duty is above 0. If no loss time is
  set when the run starts, its first sample, taken at a nonzero time \<open>t0\<close>, records
  \<open>t0\<close> and invokes nothing. If a nonzero loss time \<open>t0\<close> is already set (also one left
  by an earlier stall that ended with the fan switched off), it is kept. In both cases
  the loss time stays \<open>t0\<close> through the run, and the loss action is invoked at exactly
  those samples (after the recording one) whose time exceeds \<open>t0\<close> by strictly more than
  \<open>tach_loss_interval\<close>: at the first of them and again at every later one.
\<close>

theorem stall_fault_actions:
  assumes "freq_counter s" and "ppr s \<noteq> 0"
    and "\<forall>x \<in> set samples. fst x > 0 \<and> fst (snd x) = 0"
  shows "(tach_loss_time s = Some t0 \<and> t0 \<noteq> 0 \<longrightarrow>
            (\<exists>s' es. run_samples s samples = Inr (s', es)
               \<and> tach_loss_time s' = Some t0
               \<and> filter is_tach_loss_action es
                   = map Tach_loss_action
                       (filter (\<lambda>t. t - t0 > tach_loss_interval s)
                          (map (\<lambda>x. snd (snd x)) samples))))
         \<and> (\<not> truthy (tach_loss_time s) \<and> t0 \<noteq> 0 \<and> d0 > 0 \<longrightarrow>
            (\<exists>s' es. run_samples s ((d0, 0, t0) # samples) = Inr (s', es)
               \<and> tach_loss_time s' = Some t0
               \<and> filter is_tach_loss_action es
                   = map Tach_loss_action
                       (filter (\<lambda>t. t - t0 > tach_loss_interval s)
                          (map (\<lambda>x. snd (snd x)) samples))))"
proof (intro conjI impI)
  assume "tach_loss_time s = Some t0 \<and> t0 \<noteq> 0"
  then show "\<exists>s' es. run_samples s samples = Inr (s', es)
               \<and> tach_loss_time s' = Some t0
               \<and> filter is_tach_loss_action es
                   = map Tach_loss_action
                       (filter (\<lambda>t. t - t0 > tach_loss_interval s)
                          (map (\<lambda>x. snd (snd x)) samples))"
    using run_samples_stalled [OF assms(1,2) _ _ assms(3), of t0] by blast
next
  assume a: "\<not> truthy (tach_loss_time s) \<and> t0 \<noteq> 0 \<and> d0 > 0"
  let ?s1 = "s\<lparr>tach_loss_time := Some t0\<rparr>"
  have g: "FanTachometer_get_status s d0 0 t0 = Inr (?s1, Some 0, [])"
    using assms(1,2) a by (cases "tach_loss_time s") (simp_all add: FanTachometer_get_status_def)
  have "\<exists>s' es. run_samples ?s1 samples = Inr (s', es) \<and> tach_loss_time s' = Some t0
           \<and> filter is_tach_loss_action es
               = map Tach_loss_action
                   (filter (\<lambda>t. t - t0 > tach_loss_interval ?s1) (map (\<lambda>x. snd (snd x)) samples))"
    by (rule run_samples_stalled) (use assms a in simp_all)
  then obtain s' es where "run_samples ?s1 samples = Inr (s', es)" "tach_loss_time s' = Some t0"
    "filter is_tach_loss_action es
               = map Tach_loss_action
                   (filter (\<lambda>t. t - t0 > tach_loss_interval s) (map (\<lambda>x. snd (snd x)) samples))"
    by auto
  then show "\<exists>s' es. run_samples s ((d0, 0, t0) # samples) = Inr (s', es)
               \<and> tach_loss_time s' = Some t0
               \<and> filter is_tach_loss_action es
                   = map Tach_loss_action
                       (filter (\<lambda>t. t - t0 > tach_loss_interval s)
                          (map (\<lambda>x. snd (snd x)) samples))"
    using g by simp
qed

text \<open>
  Claim C5, amended, on the default tachometer: a fresh stall sampled at times 1, 4, 5
  and 6, and a stall sampled at times 100 and 101 with the loss time 1 left set.
\<close>

theorem stall_fault_actions_witness:
  "(\<exists>s' es. run_samples default_tachometer [(0.5, 0, 1), (0.5, 0, 4), (0.5, 0, 5), (0.5, 0, 6)]
              = Inr (s', es)
     \<and> tach_loss_time s' = Some 1
     \<and> filter is_tach_loss_action es = [Tach_loss_action 5, Tach_loss_action 6])
   \<and> (\<exists>s' es. run_samples (default_tachometer\<lparr>tach_loss_time := Some 1\<rparr>)
                 [(0.5, 0, 100), (0.5, 0, 101)] = Inr (s', es)
     \<and> tach_loss_time s' = Some 1
     \<and> filter is_tach_loss_action es = [Tach_loss_action 100, Tach_loss_action 101])"
proof -
  have a: "freq_counter default_tachometer" "ppr default_tachometer \<noteq> 0"
    "\<forall>x \<in> set [(0.5::real, 0::real, 4::real), (0.5, 0, 5), (0.5, 0, 6)]. fst x > 0 \<and> fst (snd x) = 0"
    by (simp_all add: default_tachometer_def FanTachometer_init_def)
  have b: "freq_counter (default_tachometer\<lparr>tach_loss_time := Some 1\<rparr>)"
    "ppr (default_tachometer\<lparr>tach_loss_time := Some 1\<rparr>) \<noteq> 0"
    "\<forall>x \<in> set [(0.5::real, 0::real, 100::real), (0.5, 0, 101)]. fst x > 0 \<and> fst (snd x) = 0"
    by (simp_all add: default_tachometer_def FanTachometer_init_def)
  have i: "tach_loss_interval default_tachometer = 3" "tach_loss_time default_tachometer = None"
    by (simp_all add: default_tachometer_def FanTachometer_init_def)
  show ?thesis
    using stall_fault_actions [OF a, of 1 "0.5"] stall_fault_actions [OF b, of 1 "0.5"] i
    by simp
qed

text \<open>
  Claim C6, evaluated where the code departs from it. With
  \<open>warning_repeat_interval = 0\<close> the warning is emitted at time 10 and again at time 20,
  and \<open>warning_issued\<close> is still false afterwards; through \<open>get_status\<close>, a stall first
  seen at time 1 writes a warning at the samples of times 5 and 6.
\<close>

theorem warn_once_emits_again:
  "warning_repeat_interval warn_once_tachometer = 0
   \<and> warning warn_once_tachometer 10
       = (warn_once_tachometer\<lparr>last_warning_time := 10\<rparr>, [Respond_raw 10])
   \<and> warning (fst (warning warn_once_tachometer 10)) 20
       = (warn_once_tachometer\<lparr>last_warning_time := 20\<rparr>, [Respond_raw 20])
   \<and> \<not> warning_issued (fst (warning (fst (warning warn_once_tachometer 10)) 20))
   \<and> run_samples warn_once_tachometer [(0.5, 0, 1), (0.5, 0, 5), (0.5, 0, 6)]
       = Inr (warn_once_tachometer\<lparr>tach_loss_time := Some 1, last_warning_time := 6\<rparr>,
              [Tach_loss_action 5, Respond_raw 5, Tach_loss_action 6, Respond_raw 6])"
  by (simp add: warn_once_tachometer_def FanTachometer_init_def FanTachometer_get_status_def
      warning_def)

lemma truthy_iff: "truthy x \<longleftrightarrow> x \<noteq> None \<and> x \<noteq> Some 0"
  by (cases x) auto

lemma get_status_loss_time_nonzero:
  assumes "tach_loss_time s \<noteq> Some 0" and "t \<noteq> 0"
    and "FanTachometer_get_status s d fr t = Inr (s', r, es)"
  shows "tach_loss_time s' \<noteq> Some 0"
proof (cases "freq_counter s \<and> ppr s \<noteq> 0 \<and> fr * 30 / of_int (ppr s) = 0 \<and> d > 0
              \<and> (\<exists>t0. tach_loss_time s = Some t0 \<and> tach_loss_interval s < t - t0)")
  case True
  then obtain t0 where t0: "tach_loss_time s = Some t0" "tach_loss_interval s < t - t0"
    by blast
  obtain s2 es2 where ca: "call_action (tach_loss_action s) s t = (s2, es2)"
    by (cases "call_action (tach_loss_action s) s t")
  have "FanTachometer_get_status s d fr t = Inr (s2, Some 0, Tach_loss_action t # es2)"
    using True t0 assms(1) ca by (auto simp: FanTachometer_get_status_def Let_def)
  then have "s' = s2" using assms(3) by simp
  then show ?thesis using call_action_frame [OF ca] assms(1) by simp
next
  case False
  then show ?thesis
    using assms
    by (auto simp: FanTachometer_get_status_def Let_def split: if_splits option.splits)
qed

lemma run_samples_loss_time_nonzero:
  "tach_loss_time s \<noteq> Some 0 \<Longrightarrow> \<forall>x \<in> set samples. snd (snd x) \<noteq> 0
     \<Longrightarrow> run_samples s samples = Inr (s', es) \<Longrightarrow> tach_loss_time s' \<noteq> Some 0"
proof (induction samples arbitrary: s es)
  case Nil
  then show ?case by simp
next
  case (Cons x samples)
  obtain d fr t where x: "x = (d, fr, t)" by (cases x)
  from Cons.prems(3) obtain s1 r es1 es2
    where g: "FanTachometer_get_status s d fr t = Inr (s1, r, es1)"
      and rr: "run_samples s1 samples = Inr (s', es2)"
    by (auto simp: x split: sum.splits)
  have "t \<noteq> 0" using Cons.prems(2) by (simp add: x)
  from get_status_loss_time_nonzero [OF Cons.prems(1) this g]
  have "tach_loss_time s1 \<noteq> Some 0" .
  from Cons.IH [OF this _ rr] Cons.prems(2) show ?case by simp
qed

text \<open>
  Claim C7 as stated fails. After a stall is first seen at time 1 with duty 0.5, a
  sample taken with the actuator off (duty 0, frequency 0) leaves the loss time set.
\<close>

theorem loss_time_counterexample:
  "run_samples default_tachometer [(0.5, 0, 1), (0, 0, 2)]
     = Inr (default_tachometer\<lparr>tach_loss_time := Some 1\<rparr>, [])
   \<and> FanTachometer_get_status (default_tachometer\<lparr>tach_loss_time := Some 1\<rparr>) 0 0 2
     = Inr (default_tachometer\<lparr>tach_loss_time := Some 1\<rparr>, Some 0, [])
   \<and> tach_loss_time (default_tachometer\<lparr>tach_loss_time := Some 1\<rparr>) \<noteq> None"
  by (simp add: default_tachometer_def FanTachometer_init_def FanTachometer_get_status_def)

text \<open>
  Claim C7, amended. In every state reached from a state without loss time by samples
  taken at nonzero times, a further sample that reports a positive rpm leaves the loss
  time \<open>None\<close>; a sample that reports rpm 0 while the last requested duty is 0 changes
  nothing, so it keeps whatever loss time was set.
\<close>

theorem loss_time_cleared:
  assumes "tach_loss_time s0 = None" and "\<forall>x \<in> set samples. snd (snd x) \<noteq> 0"
    and "run_samples s0 samples = Inr (s1, es1)"
    and "FanTachometer_get_status s1 d fr t = Inr (s2, Some r, es2)"
  shows "(r > 0 \<longrightarrow> tach_loss_time s2 = None)
         \<and> (r = 0 \<and> d \<le> 0 \<longrightarrow> s2 = s1 \<and> es2 = [])"
proof -
  have nz: "tach_loss_time s1 \<noteq> Some 0"
    using run_samples_loss_time_nonzero [OF _ assms(2) assms(3)] assms(1) by simp
  show ?thesis
    using assms(4) nz
    by (auto simp: FanTachometer_get_status_def Let_def truthy_iff
        split: if_splits option.splits prod.splits)
qed

text \<open>
  Claim C7, amended, on the default tachometer: a stall seen at time 1, then a reading
  of 10 Hz (150 rpm) at time 2.
\<close>

theorem loss_time_cleared_witness:
  "run_samples default_tachometer [(0.5, 0, 1)]
     = Inr (default_tachometer\<lparr>tach_loss_time := Some 1\<rparr>, [])
   \<and> FanTachometer_get_status (default_tachometer\<lparr>tach_loss_time := Some 1\<rparr>) 0.5 10 2
     = Inr (default_tachometer, Some 150, [])
   \<and> tach_loss_time default_tachometer = None"
  using loss_time_cleared [of default_tachometer "[(0.5, 0, 1)]"
      "default_tachometer\<lparr>tach_loss_time := Some 1\<rparr>" "[]" "0.5" 10 2 default_tachometer 150 "[]"]
  by (simp add: default_tachometer_def FanTachometer_init_def FanTachometer_get_status_def)

section \<open>TemperatureFan and its controllers\<close>

text \<open>
  Claim C8 as stated fails. A command with target 50, min speed 0.8 and max speed 0.5
  is rejected (min above max) after \<open>target_temp\<close> has been set to 50; a command with
  target 50, min speed 0.5 and max speed 1.5 is rejected (max out of range) after
  \<open>target_temp\<close> and \<open>min_speed\<close> have been set.
\<close>

theorem rejected_command_counterexample:
  "cmd_SET_TEMPERATURE_FAN_TARGET example_temperature_fan
       \<lparr>TARGET = Some 50, MIN_SPEED = Some 0.8, MAX_SPEED = Some 0.5\<rparr>
     = (example_temperature_fan\<lparr>target_temp := 50\<rparr>,
        Some (Command_error Min_speed_greater_than_max))
   \<and> target_temp example_temperature_fan = 40
   \<and> cmd_SET_TEMPERATURE_FAN_TARGET example_temperature_fan
       \<lparr>TARGET = Some 50, MIN_SPEED = Some 0.5, MAX_SPEED = Some 1.5\<rparr>
     = (example_temperature_fan\<lparr>target_temp := 50, min_speed := 0.5\<rparr>,
        Some (Command_error Max_speed_out_of_range))
   \<and> min_speed example_temperature_fan = 0.3"
  by (simp add: cmd_SET_TEMPERATURE_FAN_TARGET_def set_temp_def set_min_speed_def
      set_max_speed_def get_float_def example_temperature_fan_def)

text \<open>
  Claim C8, amended. A rejected \<open>SET_TEMPERATURE_FAN_TARGET\<close> command reports its error
  and never changes the fan (the actuator) or \<open>max_speed\<close>. Rejected at the target
  temperature check, it leaves the whole state unchanged. Rejected at a later check, it
  has already stored the requested target (the configured target when \<open>TARGET\<close> is
  absent); rejected at the range check of the max speed, it has also stored the
  requested min speed; otherwise \<open>min_speed\<close> is unchanged.
\<close>

theorem rejected_command_state:
  assumes "cmd_SET_TEMPERATURE_FAN_TARGET tf g = (tf', Some e)"
  shows "fan tf' = fan tf \<and> max_speed tf' = max_speed tf
         \<and> (e = Command_error Temperature_out_of_range \<longrightarrow> tf' = tf)
         \<and> (e \<noteq> Command_error Temperature_out_of_range \<longrightarrow>
              target_temp tf' = get_float (TARGET g) (target_temp_conf tf))
         \<and> (e = Command_error Max_speed_out_of_range \<longrightarrow>
              min_speed tf' = get_float (MIN_SPEED g) (min_speed tf))
         \<and> (e \<noteq> Command_error Max_speed_out_of_range \<longrightarrow> min_speed tf' = min_speed tf)"
  using assms
  by (auto simp: cmd_SET_TEMPERATURE_FAN_TARGET_def set_temp_def set_min_speed_def
      set_max_speed_def Let_def split: if_splits)

text \<open>
  Claim C8, amended: a target of 150 is rejected with the state unchanged; a max speed
  of 1.5 is rejected with the target 50 stored.
\<close>

theorem rejected_command_state_witness:
  "cmd_SET_TEMPERATURE_FAN_TARGET example_temperature_fan
       \<lparr>TARGET = Some 150, MIN_SPEED = Some 0.5, MAX_SPEED = Some 1.5\<rparr>
     = (example_temperature_fan, Some (Command_error Temperature_out_of_range))
   \<and> target_temp (fst (cmd_SET_TEMPERATURE_FAN_TARGET example_temperature_fan
       \<lparr>TARGET = Some 50, MIN_SPEED = Some 0.5, MAX_SPEED = Some 1.5\<rparr>)) = 50"
  using rejected_command_state [of example_temperature_fan
      "\<lparr>TARGET = Some 150, MIN_SPEED = Some 0.5, MAX_SPEED = Some 1.5\<rparr>"
      example_temperature_fan "Command_error Temperature_out_of_range"]
    rejected_command_state [of example_temperature_fan
      "\<lparr>TARGET = Some 50, MIN_SPEED = Some 0.5, MAX_SPEED = Some 1.5\<rparr>"
      "example_temperature_fan\<lparr>target_temp := 50, min_speed := 0.5\<rparr>"
      "Command_error Max_speed_out_of_range"]
  by (simp add: cmd_SET_TEMPERATURE_FAN_TARGET_def set_temp_def set_min_speed_def
      set_max_speed_def get_float_def example_temperature_fan_def)

text \<open>
  Claim C9. After a PID sample the stored integral differs from the previous one only if
  the sample computed a control output equal to its bounded value, and then it is the
  new clamped integral. Whenever the control output is below 0, or above
  \<open>max_speed\<close> (with \<open>max_speed \<ge> 0\<close>, as the configuration and \<open>set_max_speed\<close>
  keep it), the previous integral is retained. A sample at or above the cutoff whose
  output equals its bounded value stores the new clamped integral.
\<close>

theorem pid_integral_commit:
  assumes "ControlPID_temperature_callback pid tf read_time temp = (pid', tf', cmds, err)"
  shows "(prev_temp_integ pid' \<noteq> prev_temp_integ pid \<longrightarrow>
            (\<exists>d. temp_deriv_of pid read_time temp = Inr d
               \<and> co_of pid tf read_time temp d = bounded_co_of tf (co_of pid tf read_time temp d)
               \<and> prev_temp_integ pid' = temp_integ_of pid tf read_time temp))
         \<and> (\<forall>d. temp_deriv_of pid read_time temp = Inr d
               \<and> (co_of pid tf read_time temp d < 0
                   \<or> (0 \<le> max_speed tf \<and> max_speed tf < co_of pid tf read_time temp d))
               \<longrightarrow> prev_temp_integ pid' = prev_temp_integ pid)
         \<and> (\<forall>d. \<not> temp < min_temp_cutoff tf \<and> temp_deriv_of pid read_time temp = Inr d
               \<and> co_of pid tf read_time temp d = bounded_co_of tf (co_of pid tf read_time temp d)
               \<longrightarrow> prev_temp_integ pid' = temp_integ_of pid tf read_time temp)"
  using assms
  by (auto simp: ControlPID_temperature_callback_def bounded_co_of_def Let_def
      split: if_splits sum.splits prod.splits)

text \<open>
  Claim C9 on the example controller (previous integral 0.5): at temperature 60 the
  control output is -2 and the integral stays 0.5 although the new clamped value is 0; at
  temperature 39.5 (cutoff 0) the output 0.3 is within bounds and 2.5 is stored.
\<close>

theorem pid_integral_commit_witness:
  "prev_temp_integ (fst (ControlPID_temperature_callback example_pid
       example_temperature_fan 4 60)) = 0.5
   \<and> co_of example_pid example_temperature_fan 4 60 (35 / 4) = - 2
   \<and> temp_integ_of example_pid example_temperature_fan 4 60 = 0
   \<and> prev_temp_integ (fst (ControlPID_temperature_callback example_pid
       (example_temperature_fan\<lparr>min_temp_cutoff := 0\<rparr>) 4 39.5)) = 2.5
   \<and> co_of example_pid (example_temperature_fan\<lparr>min_temp_cutoff := 0\<rparr>) 4 39.5 (29 / 8) = 0.3"
  using pid_integral_commit [of example_pid example_temperature_fan 4 60
      "fst (ControlPID_temperature_callback example_pid example_temperature_fan 4 60)"
      "fst (snd (ControlPID_temperature_callback example_pid example_temperature_fan 4 60))"
      "fst (snd (snd (ControlPID_temperature_callback example_pid example_temperature_fan 4 60)))"
      "snd (snd (snd (ControlPID_temperature_callback example_pid example_temperature_fan 4 60)))"]
    pid_integral_commit [of example_pid "example_temperature_fan\<lparr>min_temp_cutoff := 0\<rparr>" 4 "39.5"
      "fst (ControlPID_temperature_callback example_pid (example_temperature_fan\<lparr>min_temp_cutoff := 0\<rparr>) 4 39.5)"
      "fst (snd (ControlPID_temperature_callback example_pid (example_temperature_fan\<lparr>min_temp_cutoff := 0\<rparr>) 4 39.5))"
      "fst (snd (snd (ControlPID_temperature_callback example_pid (example_temperature_fan\<lparr>min_temp_cutoff := 0\<rparr>) 4 39.5)))"
      "snd (snd (snd (ControlPID_temperature_callback example_pid (example_temperature_fan\<lparr>min_temp_cutoff := 0\<rparr>) 4 39.5)))"]
  by (simp add: ControlPID_temperature_callback_def temp_deriv_of_def temp_integ_of_def
      co_of_def bounded_co_of_def example_pid_def example_temperature_fan_def AMBIENT_TEMP_def
      Let_def case_prod_beta)

subsection \<open>ControlSlope\<close>

text \<open>
  \<open>TemperatureFan.__init__\<close> builds the controller at line 62, before it assigns
  \<open>min_speed\<close> at line 71: with \<open>control: slope\<close> the constructor of the controller
  raises.
\<close>

lemma TemperatureFan_init_slope:
  "opt_control opts = Option_slope a \<Longrightarrow> TemperatureFan_init opts = Inl AttributeError"
  by (simp add: TemperatureFan_init_def ControlSlope_init_def at_line_62_def)









end
